theory Spec2Isabelle
  imports Main "HOL-Library.AList"
begin

section \<open>Data model of \<^verbatim>\<open>src/index.js\<close>\<close>

text \<open>
  The server keeps one process-wide \<^verbatim>\<open>activeSessions\<close> map (a JavaScript \<^verbatim>\<open>Map\<close>: one
  value per key, iterated in insertion order, \<^verbatim>\<open>set\<close> on a present key replaces the value
  in place), a \<^verbatim>\<open>data\<close> directory with one folder per session id, the \<^verbatim>\<open>uploads\<close>
  directory filled by multer, and the callbacks handed to \<^verbatim>\<open>setTimeout\<close> and
  \<^verbatim>\<open>setImmediate\<close>. All of it is one explicit state record; every handler takes the state
  and returns the new one.
\<close>

type_synonym sessionId = string
type_synonym path = string
type_synonym socket = nat

datatype error = ENOENT | SyntaxError | TypeError | DeliveryError | TransportError

text \<open>The object written to and parsed from \<^verbatim>\<open>data.json\<close> (lines 91-97 and 113-114).\<close>

record session_data =
  name :: string
  targetNumber :: string
  targetType :: string
  messages :: "string list"
  delayTime :: int

text \<open>One constructor per \<^verbatim>\<open>console.log/warn/error\<close> call of the source.\<close>

datatype log =
    ErrorCreatingFolder sessionId
  | CleanupFailed sessionId
  | ProcessingError error
  | SessionConnected sessionId
  | ErrorInSession sessionId error
  | MessageSent nat string string
  | ErrorSending nat string error
  | InvalidCredentials sessionId
  | FailedToRemove sessionId
  | ConnectionClosed sessionId
  | FailedToStart sessionId error

text \<open>What a running send loop does to the outside world, in order.\<close>

datatype effect =
    SocketSend socket string string
  | Console log
  | Delay int

datatype loop_end = Finished | Threw error | OutOfFuel

datatype response = Response nat string

fun status :: "response \<Rightarrow> nat" where
  "status (Response code body) = code"

record state =
  activeSessions :: "(sessionId \<times> socket) list"
  dataDir :: "sessionId \<rightharpoonup> (string \<rightharpoonup> string)"
  uploads :: "path \<rightharpoonup> string"
  timers :: "(nat \<times> sessionId) list"
  immediates :: "sessionId list"
  emitted :: "(socket \<times> string) list"
  listeners :: "(socket \<times> sessionId \<times> session_data) list"
  console :: "log list"

text \<open>
  Library functions of the JavaScript runtime that the source calls and does not define.
  They are parameters of the model: \<open>JSON_parse\<close> returns \<open>None\<close> where
  \<^verbatim>\<open>JSON.parse\<close> (or the destructuring of its result, line 114) throws.
\<close>

record js_lib =
  JSON_parse :: "string \<Rightarrow> session_data option"
  JSON_stringify :: "session_data \<Rightarrow> string"
  parseInt :: "string \<Rightarrow> int"

text \<open>The multipart request of \<^verbatim>\<open>POST /send-message\<close>: body fields and the paths under
  which multer stored the two uploads (\<open>None\<close> when the field was not sent).\<close>

record request =
  body_name :: string
  body_targetNumber :: string
  body_targetType :: string
  body_delayTime :: string
  file_messageFile :: "path option"
  file_creds :: "path option"

datatype connection = Connecting | Open | Close

text \<open>A \<^verbatim>\<open>connection.update\<close> event; \<open>statusCode\<close> is
  \<^verbatim>\<open>lastDisconnect?.error?.output?.statusCode\<close>, \<open>None\<close> when the chain is undefined.\<close>

record update =
  connection :: "connection option"
  statusCode :: "int option"

section \<open>JavaScript primitives\<close>

text \<open>\<^verbatim>\<open>xs[i]\<close>: reading past the end of an array gives \<^verbatim>\<open>undefined\<close>, here \<open>None\<close>.\<close>

definition index_js :: "'a list \<Rightarrow> nat \<Rightarrow> 'a option" where
  "index_js xs i = (if i < length xs then Some (xs ! i) else None)"

text \<open>A value inside a template literal: \<^verbatim>\<open>undefined\<close> prints as the word.\<close>

definition interp :: "string option \<Rightarrow> string" where
  "interp v = (case v of None \<Rightarrow> ''undefined'' | Some s \<Rightarrow> s)"

definition Map_has :: "('k \<times> 'v) list \<Rightarrow> 'k \<Rightarrow> bool" where
  "Map_has m k = (map_of m k \<noteq> None)"

definition Map_get :: "('k \<times> 'v) list \<Rightarrow> 'k \<Rightarrow> 'v option" where
  "Map_get m k = map_of m k"

definition Map_set :: "'k \<Rightarrow> 'v \<Rightarrow> ('k \<times> 'v) list \<Rightarrow> ('k \<times> 'v) list" where
  "Map_set k v m = AList.update k v m"

definition Map_delete :: "'k \<Rightarrow> ('k \<times> 'v) list \<Rightarrow> ('k \<times> 'v) list" where
  "Map_delete k m = AList.delete k m"

text \<open>\<^verbatim>\<open>text.split('\n')\<close> and \<^verbatim>\<open>.filter(Boolean)\<close> (line 89).\<close>

fun split_nl :: "string \<Rightarrow> string list" where
  "split_nl [] = [[]]"
| "split_nl (c # cs) =
     (if c = CHR 0x0A then [] # split_nl cs
      else (case split_nl cs of [] \<Rightarrow> [[c]] | l # ls \<Rightarrow> (c # l) # ls))"

definition filter_Boolean :: "string list \<Rightarrow> string list" where
  "filter_Boolean ls = filter (\<lambda>l. l \<noteq> []) ls"

text \<open>Decimal rendering of \<^verbatim>\<open>Date.now()\<close> inside a template literal.\<close>

fun decimal :: "nat \<Rightarrow> string" where
  "decimal n =
     (if n < 10 then [''0123456789'' ! n]
      else decimal (n div 10) @ [''0123456789'' ! (n mod 10)])"

section \<open>File access\<close>

text \<open>\<^verbatim>\<open>fs.readFile(path.join(dataDir, sessionId, file), 'utf-8')\<close>: rejects when the folder
  or the file is missing.\<close>

definition readSessionFile :: "state \<Rightarrow> sessionId \<Rightarrow> string \<Rightarrow> error + string" where
  "readSessionFile s sessionId file =
     (case dataDir s sessionId of
        None \<Rightarrow> Inl ENOENT
      | Some folder \<Rightarrow> (case folder file of None \<Rightarrow> Inl ENOENT | Some c \<Rightarrow> Inr c))"

text \<open>Lines 28-36. \<^verbatim>\<open>mkdir\<close> with \<^verbatim>\<open>recursive: true\<close> keeps an existing folder; a failure
  (\<open>mkdir_ok = False\<close>) is logged and swallowed.\<close>

definition createSessionFolder :: "bool \<Rightarrow> state \<Rightarrow> sessionId \<Rightarrow> state" where
  "createSessionFolder mkdir_ok s sessionId =
     (if mkdir_ok then
        (case dataDir s sessionId of
           None \<Rightarrow> s\<lparr>dataDir := (dataDir s)(sessionId \<mapsto> Map.empty)\<rparr>
         | Some _ \<Rightarrow> s)
      else s\<lparr>console := console s @ [ErrorCreatingFolder sessionId]\<rparr>)"

text \<open>Lines 39-48. The scan follows the insertion order of \<^verbatim>\<open>activeSessions\<close>; a
  rejected \<^verbatim>\<open>readFile\<close> rejects the whole call.\<close>

fun scanSessions :: "state \<Rightarrow> string \<Rightarrow> (sessionId \<times> socket) list \<Rightarrow> error + bool" where
  "scanSessions s credsHash [] = Inr False"
| "scanSessions s credsHash ((sessionId, socket) # rest) =
     (case readSessionFile s sessionId ''creds.json'' of
        Inl e \<Rightarrow> Inl e
      | Inr c \<Rightarrow> if c = credsHash then Inr True else scanSessions s credsHash rest)"

definition isDuplicateCreds :: "state \<Rightarrow> path \<Rightarrow> error + bool" where
  "isDuplicateCreds s credsFilePath =
     (case uploads s credsFilePath of
        None \<Rightarrow> Inl ENOENT
      | Some credsHash \<Rightarrow> scanSessions s credsHash (activeSessions s))"

section \<open>HTTP routes\<close>

text \<open>
  The outcome of a recursive removal of a session folder: the folder is gone, or the call
  failed after it had already deleted the listed files (possibly none) and the folder,
  with whatever is left in it, stays.
\<close>

datatype rm_outcome = Removed | Failed "string list"

definition rmdir_partial ::
  "string list \<Rightarrow> (sessionId \<rightharpoonup> (string \<rightharpoonup> string)) \<Rightarrow> sessionId \<Rightarrow> (sessionId \<rightharpoonup> (string \<rightharpoonup> string))"
where
  "rmdir_partial gone dir sessionId =
     (case dir sessionId of
        None \<Rightarrow> dir
      | Some folder \<Rightarrow> dir(sessionId \<mapsto> (\<lambda>f. if f \<in> set gone then None else folder f)))"

text \<open>Lines 51-65, \<^verbatim>\<open>POST /stop-session/:sessionId\<close>. \<open>rmdir\<close> is the outcome of the
  recursive \<^verbatim>\<open>fs.rmdir\<close>; its failure only reaches \<^verbatim>\<open>console.warn\<close>, whatever it had
  deleted before.\<close>

definition stop_session :: "rm_outcome \<Rightarrow> state \<Rightarrow> sessionId \<Rightarrow> response \<times> state" where
  "stop_session rmdir s sessionId =
     (if Map_has (activeSessions s) sessionId then
        (case Map_get (activeSessions s) sessionId of
           None \<Rightarrow> (Response 500 [], s) \<comment> \<open>not reachable: \<^verbatim>\<open>has\<close> and \<^verbatim>\<open>get\<close> agree\<close>
         | Some socket \<Rightarrow>
             (let s1 = s\<lparr>emitted := emitted s @ [(socket, ''close'')]\<rparr>;
                  s2 = s1\<lparr>activeSessions := Map_delete sessionId (activeSessions s1)\<rparr>;
                  s3 = (case rmdir of
                          Removed \<Rightarrow> s2\<lparr>dataDir := (dataDir s2)(sessionId := None)\<rparr>
                        | Failed gone \<Rightarrow>
                            s2\<lparr>dataDir := rmdir_partial gone (dataDir s2) sessionId,
                               console := console s2 @ [CleanupFailed sessionId]\<rparr>)
              in (Response 200 (''Session '' @ sessionId @ '' stopped.''), s3)))
      else (Response 404 (''Session '' @ sessionId @ '' not found.''), s))"

text \<open>Lines 67-70, \<^verbatim>\<open>GET /sessions\<close>.\<close>

definition sessions :: "state \<Rightarrow> sessionId list" where
  "sessions s = map fst (activeSessions s)"

text \<open>The \<^verbatim>\<open>catch\<close> of lines 102-105.\<close>

definition processing_error :: "state \<Rightarrow> error \<Rightarrow> response \<times> state" where
  "processing_error s e =
     (Response 500 ''Failed to process the request.'',
      s\<lparr>console := console s @ [ProcessingError e]\<rparr>)"

text \<open>Lines 73-106, \<^verbatim>\<open>POST /send-message\<close>. \<open>now\<close> is \<^verbatim>\<open>Date.now()\<close>.\<close>

definition send_message :: "js_lib \<Rightarrow> nat \<Rightarrow> bool \<Rightarrow> state \<Rightarrow> request \<Rightarrow> response \<times> state" where
  "send_message lib now mkdir_ok s req =
     (case file_messageFile req of
        None \<Rightarrow> processing_error s TypeError
      | Some messageFilePath \<Rightarrow>
     (case file_creds req of
        None \<Rightarrow> processing_error s TypeError
      | Some credsFilePath \<Rightarrow>
     (case isDuplicateCreds s credsFilePath of
        Inl e \<Rightarrow> processing_error s e
      | Inr True \<Rightarrow>
          (Response 400 ''This creds.json is already in use. Please provide a unique credentials file.'',
           s\<lparr>uploads := (uploads s)(credsFilePath := None)\<rparr>)
      | Inr False \<Rightarrow>
          (let sessionId = ''session_'' @ decimal now;
               s1 = createSessionFolder mkdir_ok s sessionId
           in case (uploads s1 credsFilePath, dataDir s1 sessionId) of
                (Some creds, Some folder) \<Rightarrow>
                  (let s2 = s1\<lparr>dataDir := (dataDir s1)(sessionId \<mapsto> folder(''creds.json'' \<mapsto> creds))\<rparr>
                   in case uploads s2 messageFilePath of
                        None \<Rightarrow> processing_error s2 ENOENT
                      | Some text \<Rightarrow>
                          (let data = \<lparr>name = body_name req,
                                       targetNumber = body_targetNumber req,
                                       targetType = body_targetType req,
                                       messages = filter_Boolean (split_nl text),
                                       delayTime = parseInt lib (body_delayTime req)\<rparr>;
                               s3 = s2\<lparr>dataDir := (dataDir s2)(sessionId \<mapsto>
                                      (folder(''creds.json'' \<mapsto> creds))
                                        (''data.json'' \<mapsto> JSON_stringify lib data))\<rparr>
                           in (Response 200 (''Session '' @ sessionId @ '' started.''),
                               s3\<lparr>immediates := immediates s3 @ [sessionId]\<rparr>)))
              | _ \<Rightarrow> processing_error s1 ENOENT))))"

section \<open>Session supervisor\<close>

text \<open>Line 138.\<close>

definition targetJid :: "string \<Rightarrow> string \<Rightarrow> string" where
  "targetJid tType tNumber =
     (if tType = ''group'' then tNumber @ ''@g.us'' else tNumber @ ''@s.whatsapp.net'')"

text \<open>Lines 160-169. \<open>outcome\<close> is what \<^verbatim>\<open>socket.sendMessage\<close> does: \<open>None\<close> when it
  resolves, \<open>Some err\<close> when it rejects. The second component is the rejection of
  \<^verbatim>\<open>sendMessage\<close> itself, seen by the \<^verbatim>\<open>await\<close> of line 142.\<close>

definition sendMessage ::
  "error option \<Rightarrow> socket \<Rightarrow> string \<Rightarrow> string \<Rightarrow> string option \<Rightarrow> int \<Rightarrow> nat \<Rightarrow> effect list \<times> error option"
where
  "sendMessage outcome socket jid nm message dTime index =
     (let text = nm @ '': '' @ interp message in
      case outcome of
        None \<Rightarrow>
          ([SocketSend socket jid text,
            Console (MessageSent (index + 1) jid text),
            Delay (dTime * 1000)], None)
      | Some err \<Rightarrow>
          ([SocketSend socket jid text,
            Console (ErrorSending (index + 1) jid err),
            Delay 5000], None))"

text \<open>
  Lines 140-143, the send loop. Its condition is \<^verbatim>\<open>messages.length && activeSessions.has(sessionId)\<close>.
  Other handlers run while the loop awaits, so the registration test is an oracle:
  \<open>has i\<close> is what \<^verbatim>\<open>activeSessions.has(sessionId)\<close> returns when the condition is
  evaluated with counter \<open>i\<close>, and \<open>send i\<close> is the outcome of the transport's send in
  that iteration. The loop may run forever: \<open>fuel\<close> bounds the number of evaluations of
  the condition, and running out of it is the result \<open>OutOfFuel\<close>.
\<close>

fun sendLoop ::
  "nat \<Rightarrow> (nat \<Rightarrow> bool) \<Rightarrow> (nat \<Rightarrow> error option) \<Rightarrow> socket \<Rightarrow> string \<Rightarrow> session_data \<Rightarrow> nat \<Rightarrow> effect list \<times> loop_end"
where
  "sendLoop 0 has send socket jid d i = ([], OutOfFuel)"
| "sendLoop (Suc fuel) has send socket jid d i =
     (if length (messages d) \<noteq> 0 \<and> has i then
        (let message = index_js (messages d) i in
         case sendMessage (send i) socket jid (name d) message (delayTime d) i of
           (es, Some err) \<Rightarrow> (es, Threw err)
         | (es, None) \<Rightarrow>
             (case sendLoop fuel has send socket jid d (i + 1) of
                (es', r) \<Rightarrow> (es @ es', r)))
      else ([], Finished))"

text \<open>Lines 171-182. \<open>rm_ok\<close> is the outcome of \<^verbatim>\<open>fs.rm\<close>.\<close>

definition handleSessionClosure :: "bool \<Rightarrow> state \<Rightarrow> sessionId \<Rightarrow> int option \<Rightarrow> state" where
  "handleSessionClosure rm_ok s sessionId code =
     (let isAuthError = (code = Some 401) in
      if isAuthError then
        (let s1 = s\<lparr>console := console s @ [InvalidCredentials sessionId]\<rparr>
         in if rm_ok then s1\<lparr>dataDir := (dataDir s1)(sessionId := None)\<rparr>
            else s1\<lparr>console := console s1 @ [FailedToRemove sessionId]\<rparr>)
      else
        s\<lparr>console := console s @ [ConnectionClosed sessionId],
          timers := timers s @ [(60000, sessionId)]\<rparr>)"

text \<open>The \<^verbatim>\<open>try\<close> block of lines 112-151. \<open>conn\<close> is the outcome of opening the transport
  (lines 116-129): a fresh socket, or the error thrown on the way.\<close>

definition try_start :: "js_lib \<Rightarrow> error + socket \<Rightarrow> state \<Rightarrow> sessionId \<Rightarrow> error + state" where
  "try_start lib conn s sessionId =
     (case readSessionFile s sessionId ''data.json'' of
        Inl e \<Rightarrow> Inl e
      | Inr text \<Rightarrow>
          (case JSON_parse lib text of
             None \<Rightarrow> Inl SyntaxError
           | Some data \<Rightarrow>
               (case conn of
                  Inl e \<Rightarrow> Inl e
                | Inr socket \<Rightarrow>
                    Inr (s\<lparr>activeSessions := Map_set sessionId socket (activeSessions s),
                           listeners := listeners s @ [(socket, sessionId, data)]\<rparr>))))"

text \<open>Lines 109-158: the \<^verbatim>\<open>catch\<close> absorbs every error of the block. The first component
  is the rejection of the returned promise.\<close>

definition startWhatsAppSession ::
  "js_lib \<Rightarrow> error + socket \<Rightarrow> state \<Rightarrow> sessionId \<Rightarrow> error option \<times> state" where
  "startWhatsAppSession lib conn s sessionId =
     (case try_start lib conn s sessionId of
        Inr s' \<Rightarrow> (None, s')
      | Inl err \<Rightarrow>
          (None, s\<lparr>console := console s @ [ErrorInSession sessionId err],
                   timers := timers s @ [(60000, sessionId)]\<rparr>))"

text \<open>Lines 184-191.\<close>

definition safeStartWhatsAppSession :: "js_lib \<Rightarrow> error + socket \<Rightarrow> state \<Rightarrow> sessionId \<Rightarrow> state" where
  "safeStartWhatsAppSession lib conn s sessionId =
     (case startWhatsAppSession lib conn s sessionId of
        (None, s') \<Rightarrow> s'
      | (Some err, s') \<Rightarrow>
          s'\<lparr>console := console s' @ [FailedToStart sessionId err],
             timers := timers s' @ [(10000, sessionId)]\<rparr>)"

text \<open>The record of a session cannot be loaded: \<^verbatim>\<open>data.json\<close> is missing, or its text
  does not parse (line 113).\<close>

definition load_fails :: "js_lib \<Rightarrow> state \<Rightarrow> sessionId \<Rightarrow> bool" where
  "load_fails lib s sessionId =
     (case readSessionFile s sessionId ''data.json'' of
        Inl e \<Rightarrow> True
      | Inr text \<Rightarrow> JSON_parse lib text = None)"

text \<open>
  Lines 133-149, the \<^verbatim>\<open>connection.update\<close> listener registered by a start, with the
  variables its closure captured (\<open>sessionId\<close>, \<open>socket\<close>, the parsed \<open>data\<close>). An
  \<open>open\<close> event runs the send loop, whose effects are returned as a trace; a \<open>close\<close>
  event goes to \<open>handleSessionClosure\<close>.
\<close>

definition connection_update ::
  "nat \<Rightarrow> (nat \<Rightarrow> bool) \<Rightarrow> (nat \<Rightarrow> error option) \<Rightarrow> bool \<Rightarrow> state \<Rightarrow> sessionId \<Rightarrow> socket \<Rightarrow>
   session_data \<Rightarrow> update \<Rightarrow> (effect list \<times> loop_end) \<times> state"
where
  "connection_update fuel has send rm_ok s sessionId socket d u =
     (if connection u = Some Open then
        (let jid = targetJid (targetType d) (targetNumber d) in
         case sendLoop fuel has send socket jid d 0 of
           (es, r) \<Rightarrow> ((Console (SessionConnected sessionId) # es, r), s))
      else if connection u = Some Close then
        (([], Finished), handleSessionClosure rm_ok s sessionId (statusCode u))
      else (([], Finished), s))"

section \<open>Timers\<close>

text \<open>
  Every callback given to \<^verbatim>\<open>setTimeout\<close> (lines 156, 180, 189) is
  \<^verbatim>\<open>() => safeStartWhatsAppSession(sessionId)\<close>, so a pending timer is its delay in
  milliseconds and its session id. The source keeps no handle of a timer and never calls
  \<^verbatim>\<open>clearTimeout\<close>. \<open>fire_timer\<close> is the runtime running the \<open>n\<close>-th pending timer.
\<close>

definition fire_timer :: "js_lib \<Rightarrow> error + socket \<Rightarrow> state \<Rightarrow> nat \<Rightarrow> state" where
  "fire_timer lib conn s n =
     (if n < length (timers s) then
        safeStartWhatsAppSession lib conn
          (s\<lparr>timers := take n (timers s) @ drop (Suc n) (timers s)\<rparr>) (snd (timers s ! n))
      else s)"

text \<open>The oldest pending timer fires, \<open>n\<close> times in a row; \<open>conn k\<close> is the outcome of
  opening the transport in the \<open>k\<close>-th of these starts, counted from the last.\<close>

fun fire_timers :: "js_lib \<Rightarrow> (nat \<Rightarrow> error + socket) \<Rightarrow> nat \<Rightarrow> state \<Rightarrow> state" where
  "fire_timers lib conn 0 s = s"
| "fire_timers lib conn (Suc n) s = fire_timers lib conn n (fire_timer lib (conn n) s 0)"

section \<open>Concrete inputs\<close>

definition example_data :: session_data where
  "example_data =
     \<lparr>name = ''bob'', targetNumber = ''123'', targetType = ''single'',
      messages = [''a''], delayTime = 1\<rparr>"

definition two_messages :: session_data where
  "two_messages =
     \<lparr>name = ''bob'', targetNumber = ''123'', targetType = ''group'',
      messages = [''a'', ''b''], delayTime = 2\<rparr>"

definition example_lib :: js_lib where
  "example_lib =
     \<lparr>JSON_parse = (\<lambda>t. if t = ''D'' then Some example_data else None),
      JSON_stringify = (\<lambda>d. ''D''),
      parseInt = (\<lambda>t. 1)\<rparr>"

text \<open>No session, nothing on disk.\<close>

definition empty_state :: state where
  "empty_state =
     \<lparr>activeSessions = [], dataDir = Map.empty, uploads = Map.empty, timers = [],
      immediates = [], emitted = [], listeners = [], console = []\<rparr>"

text \<open>Session \<open>s1\<close> runs on socket 1; its folder holds both files.\<close>

definition running_state :: state where
  "running_state =
     \<lparr>activeSessions = [(''s1'', 1)],
      dataDir = [''s1'' \<mapsto> [''creds.json'' \<mapsto> ''C1'', ''data.json'' \<mapsto> ''D'']],
      uploads = Map.empty, timers = [], immediates = [], emitted = [],
      listeners = [(1, ''s1'', example_data)], console = []\<rparr>"

text \<open>The same session after a \<open>close\<close> event without status code.\<close>

definition restarting_state :: state where
  "restarting_state =
     snd (connection_update 0 (\<lambda>i. True) (\<lambda>i. None) True running_state ''s1'' 1 example_data
            \<lparr>connection = Some Close, statusCode = None\<rparr>)"

text \<open>Sessions \<open>s1\<close> and \<open>s2\<close> run, registered in this order, and a request has
  uploaded a copy of the credentials of \<open>s2\<close>.\<close>

definition two_sessions_state :: state where
  "two_sessions_state =
     \<lparr>activeSessions = [(''s1'', 1), (''s2'', 2)],
      dataDir = [''s1'' \<mapsto> [''creds.json'' \<mapsto> ''C1'', ''data.json'' \<mapsto> ''D''],
                 ''s2'' \<mapsto> [''creds.json'' \<mapsto> ''C2'', ''data.json'' \<mapsto> ''D'']],
      uploads = [''uploads/c'' \<mapsto> ''C2'', ''uploads/m'' \<mapsto> ''hello''],
      timers = [], immediates = [], emitted = [],
      listeners = [(1, ''s1'', example_data), (2, ''s2'', example_data)], console = []\<rparr>"

text \<open>The same two sessions after the transport closed \<open>s1\<close> with status code 401.\<close>

definition stale_state :: state where
  "stale_state =
     snd (connection_update 0 (\<lambda>i. True) (\<lambda>i. None) True two_sessions_state ''s1'' 1 example_data
            \<lparr>connection = Some Close, statusCode = Some 401\<rparr>)"

definition example_request :: request where
  "example_request =
     \<lparr>body_name = ''bob'', body_targetNumber = ''123'', body_targetType = ''single'',
      body_delayTime = ''1'', file_messageFile = Some ''uploads/m'',
      file_creds = Some ''uploads/c''\<rparr>"

section \<open>The send loop\<close>

lemma sendMessage_resolves:
  "snd (sendMessage outcome socket jid nm message dTime index) = None"
  by (simp add: sendMessage_def Let_def split: option.split)

lemma sendLoop_step:
  "messages d \<noteq> [] \<Longrightarrow> has i \<Longrightarrow>
   sendLoop (Suc fuel) has send socket jid d i =
     (fst (sendMessage (send i) socket jid (name d) (index_js (messages d) i) (delayTime d) i)
        @ fst (sendLoop fuel has send socket jid d (Suc i)),
      snd (sendLoop fuel has send socket jid d (Suc i)))"
  by (simp add: sendMessage_def Let_def split: option.split prod.split)

lemma sendLoop_stop:
  "messages d = [] \<or> \<not> has i \<Longrightarrow> sendLoop (Suc fuel) has send socket jid d i = ([], Finished)"
  by auto

lemma sendLoop_never_throws: "snd (sendLoop fuel has send socket jid d i) \<noteq> Threw e"
proof (induction fuel arbitrary: i)
  case 0
  show ?case by simp
next
  case (Suc fuel)
  show ?case
  proof (cases "messages d \<noteq> [] \<and> has i")
    case True
    then have "messages d \<noteq> []" and "has i" by simp_all
    then have "snd (sendLoop (Suc fuel) has send socket jid d i)
               = snd (sendLoop fuel has send socket jid d (Suc i))"
      using sendLoop_step [where d = d and has = has and i = i and fuel = fuel]
      by (simp del: sendLoop.simps)
    then show ?thesis using Suc [of "Suc i"] by (simp del: sendLoop.simps)
  next
    case False
    then show ?thesis by auto
  qed
qed

lemma upt_first: "[i..<Suc (i + n)] = i # [Suc i..<Suc (i + n)]"
  by (simp add: upt_conv_Cons del: upt_Suc)

text \<open>While the session stays registered the loop performs one iteration per counter
  value, in increasing order, and goes on from where the registered stretch ends.\<close>

lemma sendLoop_prefix:
  "messages d \<noteq> [] \<Longrightarrow> (\<forall>j. i \<le> j \<and> j < i + n \<longrightarrow> has j) \<Longrightarrow>
   sendLoop (n + fuel) has send socket jid d i =
     (concat (map (\<lambda>j. fst (sendMessage (send j) socket jid (name d)
                               (index_js (messages d) j) (delayTime d) j)) [i..<i + n])
        @ fst (sendLoop fuel has send socket jid d (i + n)),
      snd (sendLoop fuel has send socket jid d (i + n)))"
proof (induction n arbitrary: i)
  case 0
  show ?case by simp
next
  case (Suc n)
  have h: "has i" using Suc.prems(2) by simp
  have rest: "\<forall>j. Suc i \<le> j \<and> j < Suc i + n \<longrightarrow> has j" using Suc.prems(2) by simp
  have "sendLoop (Suc n + fuel) has send socket jid d i
        = sendLoop (Suc (n + fuel)) has send socket jid d i" by simp
  also have "\<dots> =
      (fst (sendMessage (send i) socket jid (name d) (index_js (messages d) i) (delayTime d) i)
         @ fst (sendLoop (n + fuel) has send socket jid d (Suc i)),
       snd (sendLoop (n + fuel) has send socket jid d (Suc i)))"
    using Suc.prems(1) h by (rule sendLoop_step)
  finally show ?case
    using Suc.IH [OF Suc.prems(1) rest] by (simp add: upt_first del: upt_Suc sendLoop.simps)
qed

text \<open>An external stop ends the loop: the first failed registration test finishes it,
  with exactly the iterations before it done.\<close>

lemma sendLoop_until_unregistered:
  assumes "messages d \<noteq> []" and "\<forall>j < k. has j" and "\<not> has k"
  shows "sendLoop (k + Suc fuel) has send socket jid d 0 =
     (concat (map (\<lambda>j. fst (sendMessage (send j) socket jid (name d)
                               (index_js (messages d) j) (delayTime d) j)) [0..<k]), Finished)"
proof -
  have "\<forall>j. 0 \<le> j \<and> j < 0 + k \<longrightarrow> has j" using assms(2) by simp
  from sendLoop_prefix [OF assms(1) this, of "Suc fuel" send socket jid]
  show ?thesis using assms(3) by (simp del: sendLoop.simps add: sendLoop_stop)
qed

text \<open>With a non-empty message list and a session that stays registered, no amount of
  fuel lets the loop finish.\<close>

lemma sendLoop_never_finishes:
  "messages d \<noteq> [] \<Longrightarrow> snd (sendLoop fuel (\<lambda>i. True) send socket jid d i) = OutOfFuel"
proof (induction fuel arbitrary: i)
  case 0
  show ?case by simp
next
  case (Suc fuel)
  have "snd (sendLoop (Suc fuel) (\<lambda>i. True) send socket jid d i)
        = snd (sendLoop fuel (\<lambda>i. True) send socket jid d (Suc i))"
    using Suc.prems sendLoop_step [where d = d and has = "\<lambda>i. True" and i = i and fuel = fuel]
    by (simp del: sendLoop.simps)
  then show ?case using Suc.IH [OF Suc.prems] by (simp del: sendLoop.simps)
qed

lemma sendLoop_address:
  "SocketSend k j t \<in> set (fst (sendLoop fuel has send socket jid d i)) \<Longrightarrow> j = jid \<and> k = socket"
proof (induction fuel arbitrary: i)
  case 0
  then show ?case by simp
next
  case (Suc fuel)
  show ?case
  proof (cases "messages d \<noteq> [] \<and> has i")
    case True
    then have "messages d \<noteq> []" and "has i" by simp_all
    from sendLoop_step [where d = d and has = has and i = i and fuel = fuel
        and send = send and socket = socket and jid = jid, OF this] Suc.prems
    have "SocketSend k j t \<in> set (fst (sendMessage (send i) socket jid (name d)
             (index_js (messages d) i) (delayTime d) i))
          \<or> SocketSend k j t \<in> set (fst (sendLoop fuel has send socket jid d (Suc i)))"
      by (simp del: sendLoop.simps)
    then show ?thesis
    proof
      assume "SocketSend k j t \<in> set (fst (sendMessage (send i) socket jid (name d)
             (index_js (messages d) i) (delayTime d) i))"
      then show ?thesis by (auto simp: sendMessage_def Let_def split: option.splits)
    next
      assume "SocketSend k j t \<in> set (fst (sendLoop fuel has send socket jid d (Suc i)))"
      then show ?thesis by (rule Suc.IH)
    qed
  next
    case False
    then show ?thesis using Suc.prems by auto
  qed
qed

text \<open>
  Claim C1: the send loop started by an \<open>open\<close> event goes through the messages in
  input order, once each, and ends when they are exhausted or the session is no longer
  registered. The condition of the loop never compares the counter with the length of
  the list: with the one message \<open>a\<close> and a session that stays registered, the loop
  sends it, then sends the text \<open>bob: undefined\<close> for index 1, and no amount of fuel
  lets it finish.
\<close>

theorem C1_sendLoop_runs_past_the_end:
  "messages example_data = [''a''] \<and>
   (\<forall>fuel. snd (sendLoop fuel (\<lambda>i. True) (\<lambda>i. None) 1 ''123@s.whatsapp.net'' example_data 0) = OutOfFuel) \<and>
   fst (sendLoop (Suc (Suc 0)) (\<lambda>i. True) (\<lambda>i. None) 1 ''123@s.whatsapp.net'' example_data 0) =
     [SocketSend 1 ''123@s.whatsapp.net'' ''bob: a'',
      Console (MessageSent 1 ''123@s.whatsapp.net'' ''bob: a''),
      Delay 1000,
      SocketSend 1 ''123@s.whatsapp.net'' ''bob: undefined'',
      Console (MessageSent 2 ''123@s.whatsapp.net'' ''bob: undefined''),
      Delay 1000]"
proof (intro conjI allI)
  show m: "messages example_data = [''a'']" by (simp add: example_data_def)
  fix fuel
  have "messages example_data \<noteq> []" by (simp add: m)
  then show "snd (sendLoop fuel (\<lambda>i. True) (\<lambda>i. None) 1 ''123@s.whatsapp.net'' example_data 0) = OutOfFuel"
    by (rule sendLoop_never_finishes)
next
  show "fst (sendLoop (Suc (Suc 0)) (\<lambda>i. True) (\<lambda>i. None) 1 ''123@s.whatsapp.net'' example_data 0) =
     [SocketSend 1 ''123@s.whatsapp.net'' ''bob: a'',
      Console (MessageSent 1 ''123@s.whatsapp.net'' ''bob: a''),
      Delay 1000,
      SocketSend 1 ''123@s.whatsapp.net'' ''bob: undefined'',
      Console (MessageSent 2 ''123@s.whatsapp.net'' ''bob: undefined''),
      Delay 1000]"
    by (simp add: example_data_def sendMessage_def index_js_def interp_def Let_def)
qed

text \<open>
  Claim C7: a delivery failure at index \<open>k\<close> stays inside the send loop. While the
  session is registered, the iterations before \<open>k\<close> are followed by the send of
  message \<open>k\<close>, the error log, the pause of 5000 ms and then the send of message
  \<open>k + 1\<close>; \<open>sendMessage\<close> resolves, and the loop never ends with a thrown error.
\<close>

theorem C7_send_failure_absorbed:
  assumes "k + 1 < length (messages d)" and "\<forall>i \<le> k + 1. has i" and "send k = Some err"
  shows "(\<exists>post. fst (sendLoop (k + 2 + fuel) has send socket jid d 0) =
            concat (map (\<lambda>j. fst (sendMessage (send j) socket jid (name d)
                               (index_js (messages d) j) (delayTime d) j)) [0..<k])
            @ [SocketSend socket jid (name d @ '': '' @ messages d ! k),
               Console (ErrorSending (k + 1) jid err),
               Delay 5000,
               SocketSend socket jid (name d @ '': '' @ messages d ! (k + 1))] @ post)
         \<and> (\<forall>n e. snd (sendLoop n has send socket jid d 0) \<noteq> Threw e)
         \<and> snd (sendMessage (send k) socket jid (name d) (index_js (messages d) k) (delayTime d) k) = None"
proof (intro conjI allI)
  have ne: "messages d \<noteq> []" using assms(1) by auto
  have reg: "\<forall>j. 0 \<le> j \<and> j < 0 + (k + 2) \<longrightarrow> has j" using assms(2) by simp
  let ?it = "\<lambda>j. fst (sendMessage (send j) socket jid (name d) (index_js (messages d) j) (delayTime d) j)"
  have run: "fst (sendLoop (k + 2 + fuel) has send socket jid d 0)
             = concat (map ?it [0..<k + 2]) @ fst (sendLoop fuel has send socket jid d (k + 2))"
    using sendLoop_prefix [OF ne reg, of fuel send socket jid] by simp
  have upt: "[0..<k + 2] = [0..<k] @ [k, k + 1]" by simp
  have itk: "?it k = [SocketSend socket jid (name d @ '': '' @ messages d ! k),
               Console (ErrorSending (k + 1) jid err), Delay 5000]"
    using assms(1,3) by (simp add: sendMessage_def index_js_def interp_def Let_def)
  obtain rest where itk1: "?it (k + 1) = SocketSend socket jid (name d @ '': '' @ messages d ! (k + 1)) # rest"
    using assms(1) by (cases "send (k + 1)") (simp_all add: sendMessage_def index_js_def interp_def Let_def)
  have "fst (sendLoop (k + 2 + fuel) has send socket jid d 0) =
            concat (map ?it [0..<k])
            @ [SocketSend socket jid (name d @ '': '' @ messages d ! k),
               Console (ErrorSending (k + 1) jid err),
               Delay 5000,
               SocketSend socket jid (name d @ '': '' @ messages d ! (k + 1))]
            @ (rest @ fst (sendLoop fuel has send socket jid d (k + 2)))"
    unfolding run upt using itk itk1 by simp
  then show "\<exists>post. fst (sendLoop (k + 2 + fuel) has send socket jid d 0) =
            concat (map ?it [0..<k])
            @ [SocketSend socket jid (name d @ '': '' @ messages d ! k),
               Console (ErrorSending (k + 1) jid err),
               Delay 5000,
               SocketSend socket jid (name d @ '': '' @ messages d ! (k + 1))] @ post"
    by blast
next
  fix n e
  show "snd (sendLoop n has send socket jid d 0) \<noteq> Threw e" by (rule sendLoop_never_throws)
next
  show "snd (sendMessage (send k) socket jid (name d) (index_js (messages d) k) (delayTime d) k) = None"
    by (rule sendMessage_resolves)
qed

theorem C7_send_failure_absorbed_witness:
  "(0::nat) + 1 < length (messages two_messages) \<and>
   (\<exists>post. fst (sendLoop (Suc (Suc 0)) (\<lambda>i. True) (\<lambda>i. if i = 0 then Some DeliveryError else None) 1 ''123@g.us'' two_messages 0) =
         [SocketSend 1 ''123@g.us'' ''bob: a'',
          Console (ErrorSending 1 ''123@g.us'' DeliveryError),
          Delay 5000,
          SocketSend 1 ''123@g.us'' ''bob: b''] @ post)"
proof -
  have h1: "(0::nat) + 1 < length (messages two_messages)" by (simp add: two_messages_def)
  have h2: "\<forall>i \<le> (0::nat) + 1. (\<lambda>i. True) i" by simp
  have h3: "(\<lambda>i::nat. if i = 0 then Some DeliveryError else None) 0 = Some DeliveryError" by simp
  note C7_send_failure_absorbed [where k = 0 and d = two_messages and has = "\<lambda>i. True"
      and send = "\<lambda>i. if i = 0 then Some DeliveryError else None" and err = DeliveryError
      and fuel = 0 and socket = 1 and jid = "''123@g.us''", OF h1 h2 h3]
  then have "\<exists>post. fst (sendLoop (Suc (Suc 0)) (\<lambda>i. True) (\<lambda>i. if i = 0 then Some DeliveryError else None) 1 ''123@g.us'' two_messages 0) =
         [SocketSend 1 ''123@g.us'' (name two_messages @ '': '' @ messages two_messages ! 0),
          Console (ErrorSending 1 ''123@g.us'' DeliveryError),
          Delay 5000,
          SocketSend 1 ''123@g.us'' (name two_messages @ '': '' @ messages two_messages ! 1)] @ post"
    by (simp del: sendLoop.simps)
  then show ?thesis using h1 by (simp add: two_messages_def del: sendLoop.simps)
qed

text \<open>
  Claim C9: the delivery address is the target number followed by \<open>@g.us\<close> for the
  target type \<open>group\<close> and by \<open>@s.whatsapp.net\<close> for every other target type; every
  send of an \<open>open\<close> event goes to that address.
\<close>

theorem C9_targetJid:
  "targetJid ''group'' n = n @ ''@g.us'' \<and>
   (t \<noteq> ''group'' \<longrightarrow> targetJid t n = n @ ''@s.whatsapp.net'') \<and>
   (\<forall>k j x. SocketSend k j x \<in> set (fst (fst (connection_update fuel has send rm_ok s sid socket d
                 \<lparr>connection = Some Open, statusCode = c\<rparr>)))
      \<longrightarrow> j = (if targetType d = ''group'' then targetNumber d @ ''@g.us''
               else targetNumber d @ ''@s.whatsapp.net''))"
proof (intro conjI impI allI)
  show "targetJid ''group'' n = n @ ''@g.us''" by (simp add: targetJid_def)
next
  assume "t \<noteq> ''group''"
  then show "targetJid t n = n @ ''@s.whatsapp.net''" by (simp add: targetJid_def)
next
  fix k j x
  assume a: "SocketSend k j x \<in> set (fst (fst (connection_update fuel has send rm_ok s sid socket d
                 \<lparr>connection = Some Open, statusCode = c\<rparr>)))"
  have "fst (fst (connection_update fuel has send rm_ok s sid socket d
                 \<lparr>connection = Some Open, statusCode = c\<rparr>))
        = Console (SessionConnected sid)
            # fst (sendLoop fuel has send socket (targetJid (targetType d) (targetNumber d)) d 0)"
    by (simp add: connection_update_def Let_def split: prod.split)
  with a have "SocketSend k j x \<in> set (fst (sendLoop fuel has send socket
                  (targetJid (targetType d) (targetNumber d)) d 0))"
    by simp
  then have "j = targetJid (targetType d) (targetNumber d)"
    using sendLoop_address by blast
  then show "j = (if targetType d = ''group'' then targetNumber d @ ''@g.us''
               else targetNumber d @ ''@s.whatsapp.net'')"
    by (simp add: targetJid_def)
qed

theorem C9_targetJid_witness:
  "''single'' \<noteq> ''group'' \<and> targetJid ''group'' ''123'' = ''123@g.us'' \<and>
   targetJid ''single'' ''123'' = ''123@s.whatsapp.net'' \<and>
   SocketSend 1 ''123@g.us'' ''bob: a''
     \<in> set (fst (fst (connection_update 1 (\<lambda>i. True) (\<lambda>i. None) True empty_state ''s1'' 1 two_messages
                 \<lparr>connection = Some Open, statusCode = None\<rparr>)))"
  using C9_targetJid [of "''123''" "''single''" 1 "\<lambda>i. True" "\<lambda>i. None" True empty_state "''s1''" 1 two_messages None]
  by (simp add: connection_update_def two_messages_def targetJid_def sendMessage_def index_js_def interp_def Let_def)

section \<open>Stopping a session\<close>

lemma stop_registered:
  "Map_get (activeSessions s) sid = Some sock \<Longrightarrow>
   stop_session out s sid =
     (Response 200 (''Session '' @ sid @ '' stopped.''),
      (case out of
         Removed \<Rightarrow>
           s\<lparr>emitted := emitted s @ [(sock, ''close'')],
             activeSessions := Map_delete sid (activeSessions s),
             dataDir := (dataDir s)(sid := None)\<rparr>
       | Failed gone \<Rightarrow>
           s\<lparr>emitted := emitted s @ [(sock, ''close'')],
             activeSessions := Map_delete sid (activeSessions s),
             dataDir := rmdir_partial gone (dataDir s) sid,
             console := console s @ [CleanupFailed sid]\<rparr>))"
  by (simp add: stop_session_def Map_has_def Map_get_def Let_def split: rm_outcome.split)

lemma stop_unregistered:
  "\<not> Map_has (activeSessions s) sid \<Longrightarrow>
   stop_session out s sid = (Response 404 (''Session '' @ sid @ '' not found.''), s)"
  by (simp add: stop_session_def)

lemma not_has_after_delete: "\<not> Map_has (Map_delete k m) k"
  by (simp add: Map_has_def Map_delete_def AList.delete_conv')

text \<open>
  Claim C6: \<open>stopSession\<close> answers not found (404) exactly when the id is not
  registered. For a registered id it emits \<open>close\<close> on the socket, removes the id from
  the map, tries to remove the folder and answers 200 whether or not the removal worked
  (a failure is only logged, whatever it had deleted); the timers are left alone. A
  second stop of the same id answers 404 and changes nothing.
\<close>

theorem C6_stop_session:
  "(status (fst (stop_session out s sid)) = 404 \<longleftrightarrow> \<not> Map_has (activeSessions s) sid) \<and>
   (Map_get (activeSessions s) sid = Some sock \<longrightarrow>
      fst (stop_session out s sid) = Response 200 (''Session '' @ sid @ '' stopped.'') \<and>
      emitted (snd (stop_session out s sid)) = emitted s @ [(sock, ''close'')] \<and>
      activeSessions (snd (stop_session out s sid)) = Map_delete sid (activeSessions s) \<and>
      \<not> Map_has (activeSessions (snd (stop_session out s sid))) sid \<and>
      dataDir (snd (stop_session out s sid))
        = (case out of Removed \<Rightarrow> (dataDir s)(sid := None)
           | Failed gone \<Rightarrow> rmdir_partial gone (dataDir s) sid) \<and>
      console (snd (stop_session out s sid))
        = (case out of Removed \<Rightarrow> console s
           | Failed gone \<Rightarrow> console s @ [CleanupFailed sid]) \<and>
      timers (snd (stop_session out s sid)) = timers s \<and>
      stop_session out' (snd (stop_session out s sid)) sid =
        (Response 404 (''Session '' @ sid @ '' not found.''), snd (stop_session out s sid)))"
proof (intro conjI impI)
  show "status (fst (stop_session out s sid)) = 404 \<longleftrightarrow> \<not> Map_has (activeSessions s) sid"
  proof (cases "Map_has (activeSessions s) sid")
    case True
    then obtain sock' where "Map_get (activeSessions s) sid = Some sock'"
      by (auto simp: Map_has_def Map_get_def)
    then show ?thesis using True by (simp add: stop_registered)
  next
    case False
    then show ?thesis by (simp add: stop_unregistered)
  qed
next
  assume r: "Map_get (activeSessions s) sid = Some sock"
  note st = stop_registered [OF r, of out]
  show "fst (stop_session out s sid) = Response 200 (''Session '' @ sid @ '' stopped.'')"
    by (simp add: st)
  show "emitted (snd (stop_session out s sid)) = emitted s @ [(sock, ''close'')]"
    by (simp add: st split: rm_outcome.split)
  show a: "activeSessions (snd (stop_session out s sid)) = Map_delete sid (activeSessions s)"
    by (simp add: st split: rm_outcome.split)
  show n: "\<not> Map_has (activeSessions (snd (stop_session out s sid))) sid"
    by (simp only: a not_has_after_delete not_False_eq_True)
  show "dataDir (snd (stop_session out s sid))
        = (case out of Removed \<Rightarrow> (dataDir s)(sid := None)
           | Failed gone \<Rightarrow> rmdir_partial gone (dataDir s) sid)"
    by (simp add: st split: rm_outcome.split)
  show "console (snd (stop_session out s sid))
        = (case out of Removed \<Rightarrow> console s
           | Failed gone \<Rightarrow> console s @ [CleanupFailed sid])"
    by (simp add: st split: rm_outcome.split)
  show "timers (snd (stop_session out s sid)) = timers s"
    by (simp add: st split: rm_outcome.split)
  show "stop_session out' (snd (stop_session out s sid)) sid =
        (Response 404 (''Session '' @ sid @ '' not found.''), snd (stop_session out s sid))"
    using n by (rule stop_unregistered)
qed

theorem C6_stop_session_witness:
  "Map_get (activeSessions running_state) ''s1'' = Some 1 \<and>
   fst (stop_session (Failed [''data.json'']) running_state ''s1'') = Response 200 ''Session s1 stopped.'' \<and>
   emitted (snd (stop_session (Failed [''data.json'']) running_state ''s1'')) = [(1, ''close'')] \<and>
   console (snd (stop_session (Failed [''data.json'']) running_state ''s1'')) = [CleanupFailed ''s1''] \<and>
   status (fst (stop_session Removed
     (snd (stop_session (Failed [''data.json'']) running_state ''s1'')) ''s1'')) = 404"
  using C6_stop_session [of "Failed [''data.json'']" running_state "''s1''" 1 Removed]
  by (simp add: running_state_def Map_get_def)

section \<open>Closed connections\<close>

lemma closure_auth:
  "handleSessionClosure rm_ok s sid (Some 401) =
     (if rm_ok
      then s\<lparr>console := console s @ [InvalidCredentials sid], dataDir := (dataDir s)(sid := None)\<rparr>
      else s\<lparr>console := console s @ [InvalidCredentials sid, FailedToRemove sid]\<rparr>)"
  by (simp add: handleSessionClosure_def Let_def)

lemma closure_other:
  "code \<noteq> Some 401 \<Longrightarrow>
   handleSessionClosure rm_ok s sid code =
     s\<lparr>console := console s @ [ConnectionClosed sid], timers := timers s @ [(60000, sid)]\<rparr>"
  by (simp add: handleSessionClosure_def Let_def)

lemma close_event:
  "connection_update fuel has send rm_ok s sid socket d \<lparr>connection = Some Close, statusCode = code\<rparr>
     = (([], Finished), handleSessionClosure rm_ok s sid code)"
  by (simp add: connection_update_def)

text \<open>
  Claim C3: a \<open>close\<close> event with status code 401 deletes the storage of the session,
  leaves the id absent from the session map and schedules no restart. Evaluated on the
  running session \<open>s1\<close>: the folder is removed and no timer is set, but the id is still
  registered with its socket and still listed by \<open>sessions\<close>; nothing in
  \<open>handleSessionClosure\<close> removes it, unlike \<open>stop_session\<close>.
\<close>

theorem C3_auth_closure_keeps_registration:
  "Map_get (activeSessions (snd (connection_update 0 (\<lambda>i. True) (\<lambda>i. None) True running_state ''s1'' 1
       example_data \<lparr>connection = Some Close, statusCode = Some 401\<rparr>))) ''s1'' = Some 1 \<and>
   sessions (snd (connection_update 0 (\<lambda>i. True) (\<lambda>i. None) True running_state ''s1'' 1
       example_data \<lparr>connection = Some Close, statusCode = Some 401\<rparr>)) = [''s1''] \<and>
   dataDir (snd (connection_update 0 (\<lambda>i. True) (\<lambda>i. None) True running_state ''s1'' 1
       example_data \<lparr>connection = Some Close, statusCode = Some 401\<rparr>)) ''s1'' = None \<and>
   timers (snd (connection_update 0 (\<lambda>i. True) (\<lambda>i. None) True running_state ''s1'' 1
       example_data \<lparr>connection = Some Close, statusCode = Some 401\<rparr>)) = []"
  by (simp add: close_event closure_auth running_state_def Map_get_def sessions_def)

text \<open>
  Claim C4, as stated: a \<open>close\<close> event with another reason unregisters the id and
  schedules one restart after 60 s. Against it: after such an event the id is still
  registered.
\<close>

theorem C4_counterexample:
  "Map_has (activeSessions (snd (connection_update 0 (\<lambda>i. True) (\<lambda>i. None) True running_state ''s1'' 1
       example_data \<lparr>connection = Some Close, statusCode = Some 428\<rparr>))) ''s1''"
  by (simp add: close_event closure_other running_state_def Map_has_def)

text \<open>
  Claim C4, amended: a \<open>close\<close> event whose status code is not 401 leaves the session
  map as it is (the id stays registered with its old socket until the restart replaces
  it), appends exactly one timer of 60000 ms for the id, logs the closure, and changes
  nothing else.
\<close>

theorem C4_other_closure_schedules_restart:
  "code \<noteq> Some 401 \<longrightarrow>
   fst (connection_update fuel has send rm_ok s sid socket d
          \<lparr>connection = Some Close, statusCode = code\<rparr>) = ([], Finished) \<and>
   snd (connection_update fuel has send rm_ok s sid socket d
          \<lparr>connection = Some Close, statusCode = code\<rparr>)
     = s\<lparr>console := console s @ [ConnectionClosed sid], timers := timers s @ [(60000, sid)]\<rparr> \<and>
   activeSessions (snd (connection_update fuel has send rm_ok s sid socket d
          \<lparr>connection = Some Close, statusCode = code\<rparr>)) = activeSessions s \<and>
   timers (snd (connection_update fuel has send rm_ok s sid socket d
          \<lparr>connection = Some Close, statusCode = code\<rparr>)) = timers s @ [(60000, sid)] \<and>
   dataDir (snd (connection_update fuel has send rm_ok s sid socket d
          \<lparr>connection = Some Close, statusCode = code\<rparr>)) = dataDir s"
  by (simp add: close_event closure_other)

theorem C4_other_closure_schedules_restart_witness:
  "(Some 428 :: int option) \<noteq> Some 401 \<and>
   activeSessions (snd (connection_update 0 (\<lambda>i. True) (\<lambda>i. None) True running_state ''s1'' 1 example_data
          \<lparr>connection = Some Close, statusCode = Some 428\<rparr>)) = [(''s1'', 1)] \<and>
   timers (snd (connection_update 0 (\<lambda>i. True) (\<lambda>i. None) True running_state ''s1'' 1 example_data
          \<lparr>connection = Some Close, statusCode = Some 428\<rparr>)) = [(60000, ''s1'')]"
  using C4_other_closure_schedules_restart [of "Some 428" 0 "\<lambda>i. True" "\<lambda>i. None" True running_state "''s1''" 1 example_data]
  by (simp add: running_state_def)

section \<open>Starting a session\<close>

lemma start_loaded:
  "readSessionFile s sid ''data.json'' = Inr text \<Longrightarrow> JSON_parse lib text = Some d \<Longrightarrow>
   startWhatsAppSession lib (Inr sock) s sid =
     (None, s\<lparr>activeSessions := Map_set sid sock (activeSessions s),
              listeners := listeners s @ [(sock, sid, d)]\<rparr>)"
  by (simp add: startWhatsAppSession_def try_start_def)

lemma start_load_fails:
  "load_fails lib s sid \<Longrightarrow>
   \<exists>e. startWhatsAppSession lib conn s sid =
     (None, s\<lparr>console := console s @ [ErrorInSession sid e],
              timers := timers s @ [(60000, sid)]\<rparr>)"
  by (auto simp: load_fails_def startWhatsAppSession_def try_start_def split: sum.splits)

lemma start_never_rejects: "fst (startWhatsAppSession lib conn s sid) = None"
  by (simp add: startWhatsAppSession_def split: sum.split)

lemma safeStart_is_start:
  "safeStartWhatsAppSession lib conn s sid = snd (startWhatsAppSession lib conn s sid)"
  using start_never_rejects [of lib conn s sid]
  by (cases "startWhatsAppSession lib conn s sid") (simp add: safeStartWhatsAppSession_def)

lemma start_activeSessions:
  "activeSessions (snd (startWhatsAppSession lib conn s sid)) = activeSessions s \<or>
   (\<exists>sock. activeSessions (snd (startWhatsAppSession lib conn s sid)) = Map_set sid sock (activeSessions s))"
  by (auto simp: startWhatsAppSession_def try_start_def split: sum.splits option.splits)

lemma start_timers:
  "set (timers (snd (startWhatsAppSession lib conn s sid))) \<subseteq> set (timers s) \<union> {(60000, sid)}"
  by (auto simp: startWhatsAppSession_def try_start_def split: sum.splits option.splits)

lemma distinct_Map_set: "distinct (map fst m) \<Longrightarrow> distinct (map fst (Map_set k v m))"
  by (simp add: Map_set_def AList.distinct_update)

lemma Map_get_set: "Map_get (Map_set k v m) k' = (if k' = k then Some v else Map_get m k')"
  by (simp add: Map_get_def Map_set_def AList.update_conv')

lemma safeStart_load_fails:
  "load_fails lib s sid \<Longrightarrow>
   \<exists>e. safeStartWhatsAppSession lib conn s sid =
     s\<lparr>console := console s @ [ErrorInSession sid e], timers := timers s @ [(60000, sid)]\<rparr>"
  using start_load_fails [of lib s sid conn] by (auto simp: safeStart_is_start)

lemma load_fails_dataDir:
  "load_fails lib s sid =
     (case dataDir s sid of None \<Rightarrow> True
      | Some folder \<Rightarrow> (case folder ''data.json'' of None \<Rightarrow> True
          | Some text \<Rightarrow> JSON_parse lib text = None))"
  by (simp add: load_fails_def readSessionFile_def split: option.split)

lemma retry_step:
  assumes "load_fails lib s sid" and "timers s = [(60000, sid)]"
  shows "load_fails lib (fire_timer lib conn s 0) sid \<and>
         timers (fire_timer lib conn s 0) = [(60000, sid)] \<and>
         activeSessions (fire_timer lib conn s 0) = activeSessions s"
proof -
  let ?s0 = "s\<lparr>timers := []\<rparr>"
  have f: "fire_timer lib conn s 0 = safeStartWhatsAppSession lib conn ?s0 sid"
    using assms(2) by (simp add: fire_timer_def)
  have "load_fails lib ?s0 sid" using assms(1) by (simp add: load_fails_dataDir)
  from safeStart_load_fails [OF this, of conn] obtain e where
    "safeStartWhatsAppSession lib conn ?s0 sid =
       ?s0\<lparr>console := console ?s0 @ [ErrorInSession sid e], timers := timers ?s0 @ [(60000, sid)]\<rparr>"
    by blast
  with f assms(1) show ?thesis by (simp add: load_fails_dataDir)
qed

lemma retries_unbounded:
  "load_fails lib s sid \<Longrightarrow> timers s = [(60000, sid)] \<Longrightarrow>
   load_fails lib (fire_timers lib conns n s) sid \<and>
   timers (fire_timers lib conns n s) = [(60000, sid)] \<and>
   activeSessions (fire_timers lib conns n s) = activeSessions s"
proof (induction n arbitrary: s)
  case 0
  then show ?case by simp
next
  case (Suc n)
  from retry_step [OF Suc.prems, of "conns n"] Suc.IH [of "fire_timer lib (conns n) s 0"]
  show ?case by simp
qed

text \<open>
  Claim C2, as stated: a start that finds the id already registered aborts without side
  effects and the existing handle stays. Against it: \<open>s1\<close> runs on socket 1, a second
  start of \<open>s1\<close> opens socket 2, registers it in place of socket 1 and adds a second
  listener.
\<close>

theorem C2_counterexample:
  "Map_get (activeSessions running_state) ''s1'' = Some 1 \<and>
   Map_get (activeSessions (snd (startWhatsAppSession example_lib (Inr 2) running_state ''s1''))) ''s1'' = Some 2 \<and>
   listeners (snd (startWhatsAppSession example_lib (Inr 2) running_state ''s1''))
     = [(1, ''s1'', example_data), (2, ''s1'', example_data)]"
  by (simp add: startWhatsAppSession_def try_start_def readSessionFile_def running_state_def
        example_lib_def Map_get_def Map_set_def)

text \<open>
  Claim C2, amended: the session map holds at most one socket per id at any instant
  (a start keeps the keys distinct), and a start never tests whether the id is
  registered: once the record is loaded and the transport opened it registers the new
  socket under the id, replacing the one registered before, leaves the other ids alone
  and adds its listener.
\<close>

theorem C2_start_registers_latest_handle:
  "(distinct (map fst (activeSessions s)) \<longrightarrow>
      distinct (map fst (activeSessions (snd (startWhatsAppSession lib conn s sid))))) \<and>
   (readSessionFile s sid ''data.json'' = Inr text \<and> JSON_parse lib text = Some d \<longrightarrow>
      Map_get (activeSessions (snd (startWhatsAppSession lib (Inr sock) s sid))) sid = Some sock \<and>
      (\<forall>k. k \<noteq> sid \<longrightarrow>
         Map_get (activeSessions (snd (startWhatsAppSession lib (Inr sock) s sid))) k
           = Map_get (activeSessions s) k) \<and>
      listeners (snd (startWhatsAppSession lib (Inr sock) s sid)) = listeners s @ [(sock, sid, d)])"
proof (intro conjI impI)
  assume "distinct (map fst (activeSessions s))"
  then show "distinct (map fst (activeSessions (snd (startWhatsAppSession lib conn s sid))))"
    using start_activeSessions [of lib conn s sid] by (auto simp: distinct_Map_set)
next
  assume a: "readSessionFile s sid ''data.json'' = Inr text \<and> JSON_parse lib text = Some d"
  then have st: "startWhatsAppSession lib (Inr sock) s sid =
     (None, s\<lparr>activeSessions := Map_set sid sock (activeSessions s),
              listeners := listeners s @ [(sock, sid, d)]\<rparr>)"
    by (simp add: start_loaded)
  show "Map_get (activeSessions (snd (startWhatsAppSession lib (Inr sock) s sid))) sid = Some sock"
    by (simp add: st Map_get_set)
  show "\<forall>k. k \<noteq> sid \<longrightarrow>
         Map_get (activeSessions (snd (startWhatsAppSession lib (Inr sock) s sid))) k
           = Map_get (activeSessions s) k"
    by (simp add: st Map_get_set)
  show "listeners (snd (startWhatsAppSession lib (Inr sock) s sid)) = listeners s @ [(sock, sid, d)]"
    by (simp add: st)
qed

theorem C2_start_registers_latest_handle_witness:
  "distinct (map fst (activeSessions running_state)) \<and>
   readSessionFile running_state ''s1'' ''data.json'' = Inr ''D'' \<and>
   JSON_parse example_lib ''D'' = Some example_data \<and>
   ''s2'' \<noteq> ''s1'' \<and>
   distinct (map fst (activeSessions (snd (startWhatsAppSession example_lib (Inr 2) running_state ''s1'')))) \<and>
   Map_get (activeSessions (snd (startWhatsAppSession example_lib (Inr 2) running_state ''s1''))) ''s1'' = Some 2 \<and>
   Map_get (activeSessions (snd (startWhatsAppSession example_lib (Inr 2) running_state ''s1''))) ''s2'' = None"
  using C2_start_registers_latest_handle [of running_state example_lib "Inr 2" "''s1''" "''D''" example_data 2]
  by (simp add: readSessionFile_def running_state_def example_lib_def Map_get_def)

text \<open>
  Claim C8, as stated: a failed load schedules the retry after 10 seconds. Against it:
  with no storage for \<open>s1\<close> the start leaves one timer of 60000 ms and none of
  10000 ms.
\<close>

theorem C8_counterexample:
  "load_fails example_lib empty_state ''s1'' \<and>
   timers (safeStartWhatsAppSession example_lib (Inr 1) empty_state ''s1'') = [(60000, ''s1'')] \<and>
   (10000, ''s1'') \<notin> set (timers (safeStartWhatsAppSession example_lib (Inr 1) empty_state ''s1''))"
  by (simp add: load_fails_def readSessionFile_def empty_state_def safeStartWhatsAppSession_def
        startWhatsAppSession_def try_start_def)

text \<open>
  Claim C8, amended: a start whose record cannot be loaded is never a permanent failure.
  It logs the error and schedules one retry of the start after 60000 ms (the
  \<^verbatim>\<open>catch\<close> of \<open>startWhatsAppSession\<close>; the 10000 ms timer of
  \<open>safeStartWhatsAppSession\<close> is never set, since the start absorbs its own errors),
  and the retries are unbounded: while the record stays unreadable, after any number of
  firings the retry is pending again.
\<close>

theorem C8_load_failure_retries_after_60s:
  "set (timers (safeStartWhatsAppSession lib conn s sid)) \<subseteq> set (timers s) \<union> {(60000, sid)} \<and>
   (load_fails lib s sid \<longrightarrow>
      (\<exists>e. safeStartWhatsAppSession lib conn s sid =
         s\<lparr>console := console s @ [ErrorInSession sid e], timers := timers s @ [(60000, sid)]\<rparr>) \<and>
      (timers s = [] \<longrightarrow>
         (\<forall>n. timers (fire_timers lib conns n (safeStartWhatsAppSession lib conn s sid)) = [(60000, sid)] \<and>
              load_fails lib (fire_timers lib conns n (safeStartWhatsAppSession lib conn s sid)) sid)))"
proof (intro conjI impI allI)
  show "set (timers (safeStartWhatsAppSession lib conn s sid)) \<subseteq> set (timers s) \<union> {(60000, sid)}"
    by (simp only: safeStart_is_start start_timers)
next
  assume "load_fails lib s sid"
  then show "\<exists>e. safeStartWhatsAppSession lib conn s sid =
         s\<lparr>console := console s @ [ErrorInSession sid e], timers := timers s @ [(60000, sid)]\<rparr>"
    by (rule safeStart_load_fails)
next
  fix n
  assume lf: "load_fails lib s sid" and t: "timers s = []"
  from safeStart_load_fails [OF lf, of conn] obtain e where
    e: "safeStartWhatsAppSession lib conn s sid =
         s\<lparr>console := console s @ [ErrorInSession sid e], timers := timers s @ [(60000, sid)]\<rparr>"
    by blast
  have 1: "load_fails lib (safeStartWhatsAppSession lib conn s sid) sid"
    using lf by (simp add: e load_fails_dataDir)
  have 2: "timers (safeStartWhatsAppSession lib conn s sid) = [(60000, sid)]"
    using t by (simp add: e)
  from retries_unbounded [OF 1 2, of conns n]
  show "timers (fire_timers lib conns n (safeStartWhatsAppSession lib conn s sid)) = [(60000, sid)]"
    and "load_fails lib (fire_timers lib conns n (safeStartWhatsAppSession lib conn s sid)) sid"
    by simp_all
qed

theorem C8_load_failure_retries_after_60s_witness:
  "load_fails example_lib empty_state ''s1'' \<and> timers empty_state = [] \<and>
   timers (safeStartWhatsAppSession example_lib (Inr 1) empty_state ''s1'') = [(60000, ''s1'')] \<and>
   timers (fire_timers example_lib (\<lambda>k. Inr (k + 2)) 3
             (safeStartWhatsAppSession example_lib (Inr 1) empty_state ''s1'')) = [(60000, ''s1'')]"
proof -
  have lf: "load_fails example_lib empty_state ''s1''"
    by (simp add: load_fails_def readSessionFile_def empty_state_def)
  have t: "timers empty_state = []" by (simp add: empty_state_def)
  note inst = C8_load_failure_retries_after_60s [of example_lib "Inr 1" empty_state "''s1''" "\<lambda>k. Inr (k + 2)"]
  from inst lf t have
    "timers (fire_timers example_lib (\<lambda>k. Inr (k + 2)) 3
             (safeStartWhatsAppSession example_lib (Inr 1) empty_state ''s1'')) = [(60000, ''s1'')]"
    by blast
  moreover from inst lf t have
    "timers (fire_timers example_lib (\<lambda>k. Inr (k + 2)) 0
             (safeStartWhatsAppSession example_lib (Inr 1) empty_state ''s1'')) = [(60000, ''s1'')]"
    by blast
  ultimately show ?thesis using lf t by simp
qed

section \<open>Stopping against a pending restart\<close>

lemma stop_timers: "timers (snd (stop_session out s sid)) = timers s"
  by (simp add: stop_session_def Let_def split: option.split rm_outcome.split)

lemma stop_not_registered: "\<not> Map_has (activeSessions (snd (stop_session out s sid))) sid"
proof (cases "Map_has (activeSessions s) sid")
  case True
  then obtain sock where "Map_get (activeSessions s) sid = Some sock"
    by (auto simp: Map_has_def Map_get_def)
  from stop_registered [OF this, of out]
  have "activeSessions (snd (stop_session out s sid)) = Map_delete sid (activeSessions s)"
    by (simp split: rm_outcome.split)
  then show ?thesis by (simp only: not_has_after_delete not_False_eq_True)
next
  case False
  then show ?thesis by (simp add: stop_unregistered)
qed

lemma stop_removed_load_fails:
  "Map_has (activeSessions s) sid \<Longrightarrow> load_fails lib (snd (stop_session Removed s sid)) sid"
  by (auto simp: stop_session_def Let_def Map_has_def Map_get_def load_fails_dataDir
           split: option.split)

lemma try_start_load_fails:
  "load_fails lib s sid \<Longrightarrow> \<exists>e. try_start lib conn s sid = Inl e"
  by (auto simp: load_fails_def try_start_def split: sum.splits)

lemma try_start_transport_fails: "\<exists>e'. try_start lib (Inl e) s sid = Inl e'"
  by (simp add: try_start_def split: sum.split option.split)

lemma safeStart_failed:
  "try_start lib conn s sid = Inl e \<Longrightarrow>
   safeStartWhatsAppSession lib conn s sid =
     s\<lparr>console := console s @ [ErrorInSession sid e], timers := timers s @ [(60000, sid)]\<rparr>"
  by (simp add: safeStart_is_start startWhatsAppSession_def)

lemma try_start_timers:
  "try_start lib conn (s\<lparr>timers := t\<rparr>) sid = Inl e \<longleftrightarrow> try_start lib conn s sid = Inl e"
  by (simp add: try_start_def readSessionFile_def split: option.split sum.split)

text \<open>A start that fails after a stop leaves the id unregistered and appends its retry.\<close>

lemma fire_after_stop_failed:
  assumes "n < length (timers s)" and "snd (timers s ! n) = sid"
    and "try_start lib conn (snd (stop_session out s sid)) sid = Inl e"
  shows "\<not> Map_has (activeSessions (fire_timer lib conn (snd (stop_session out s sid)) n)) sid \<and>
         timers (fire_timer lib conn (snd (stop_session out s sid)) n)
           = take n (timers s) @ drop (Suc n) (timers s) @ [(60000, sid)]"
proof -
  let ?p = "snd (stop_session out s sid)"
  let ?s1 = "?p\<lparr>timers := take n (timers s) @ drop (Suc n) (timers s)\<rparr>"
  have f: "fire_timer lib conn ?p n = safeStartWhatsAppSession lib conn ?s1 sid"
    using assms(1,2) by (simp add: fire_timer_def stop_timers)
  have "try_start lib conn ?s1 sid = Inl e"
    using assms(3) by (simp only: try_start_timers)
  from safeStart_failed [OF this] f
  have r: "fire_timer lib conn ?p n =
        ?s1\<lparr>console := console ?s1 @ [ErrorInSession sid e], timers := timers ?s1 @ [(60000, sid)]\<rparr>"
    by simp
  have "activeSessions (fire_timer lib conn ?p n) = activeSessions ?p" by (simp add: r)
  then have "\<not> Map_has (activeSessions (fire_timer lib conn ?p n)) sid"
    by (simp only: stop_not_registered not_False_eq_True)
  moreover have "timers (fire_timer lib conn ?p n)
           = take n (timers s) @ drop (Suc n) (timers s) @ [(60000, sid)]"
    by (simp add: r)
  ultimately show ?thesis by (rule conjI)
qed

text \<open>
  Claim C5, as stated: after a successful stop no restart timer scheduled before it
  starts the session again. Against it: \<open>s1\<close> has a restart pending after a closed
  connection; the stop succeeds, removes the folder, and the timer is still pending;
  when it fires, the start runs again, logs the load error and schedules the next
  retry. After a stop whose removal failed without deleting anything, the start
  registers \<open>s1\<close> again on a new socket.
\<close>

theorem C5_counterexample:
  "timers restarting_state = [(60000, ''s1'')] \<and>
   fst (stop_session Removed restarting_state ''s1'') = Response 200 ''Session s1 stopped.'' \<and>
   timers (snd (stop_session Removed restarting_state ''s1'')) = [(60000, ''s1'')] \<and>
   console (fire_timer example_lib (Inr 2) (snd (stop_session Removed restarting_state ''s1'')) 0)
     = [ConnectionClosed ''s1'', ErrorInSession ''s1'' ENOENT] \<and>
   timers (fire_timer example_lib (Inr 2) (snd (stop_session Removed restarting_state ''s1'')) 0)
     = [(60000, ''s1'')] \<and>
   Map_get (activeSessions (fire_timer example_lib (Inr 2)
      (snd (stop_session (Failed []) restarting_state ''s1'')) 0)) ''s1'' = Some 2"
  by (simp add: restarting_state_def running_state_def close_event closure_other
        stop_session_def Map_has_def Map_get_def Map_delete_def Map_set_def Let_def
        fire_timer_def safeStartWhatsAppSession_def startWhatsAppSession_def try_start_def
        readSessionFile_def example_lib_def rmdir_partial_def)

text \<open>
  Claim C5, amended: a stop does not touch the pending timers. A restart timer scheduled
  for the id before the stop is still pending after it, and when it fires it runs the
  start of that id again. If the record can no longer be loaded after the stop (always
  so when the stop removed the folder of a registered id), or the transport does not
  open, that start leaves the id unregistered and appends a further retry after
  60000 ms. If the stop left a loadable record (its removal failed before deleting
  \<^verbatim>\<open>data.json\<close>) and the transport opens, that start registers the id again on the
  new socket.
\<close>

theorem C5_stop_keeps_pending_timers:
  "timers (snd (stop_session out s sid)) = timers s \<and>
   (Map_has (activeSessions s) sid \<longrightarrow> load_fails lib (snd (stop_session Removed s sid)) sid) \<and>
   (n < length (timers s) \<and> snd (timers s ! n) = sid \<longrightarrow>
      fire_timer lib conn (snd (stop_session out s sid)) n =
        safeStartWhatsAppSession lib conn
          ((snd (stop_session out s sid))\<lparr>timers := take n (timers s) @ drop (Suc n) (timers s)\<rparr>) sid \<and>
      (load_fails lib (snd (stop_session out s sid)) sid \<longrightarrow>
         \<not> Map_has (activeSessions (fire_timer lib conn (snd (stop_session out s sid)) n)) sid \<and>
         timers (fire_timer lib conn (snd (stop_session out s sid)) n)
           = take n (timers s) @ drop (Suc n) (timers s) @ [(60000, sid)]) \<and>
      \<not> Map_has (activeSessions (fire_timer lib (Inl err) (snd (stop_session out s sid)) n)) sid \<and>
      timers (fire_timer lib (Inl err) (snd (stop_session out s sid)) n)
        = take n (timers s) @ drop (Suc n) (timers s) @ [(60000, sid)] \<and>
      (readSessionFile (snd (stop_session out s sid)) sid ''data.json'' = Inr text \<and>
       JSON_parse lib text = Some d \<longrightarrow>
         Map_get (activeSessions (fire_timer lib (Inr sock) (snd (stop_session out s sid)) n)) sid
           = Some sock))"
proof (intro conjI impI)
  show "timers (snd (stop_session out s sid)) = timers s" by (rule stop_timers)
next
  assume "Map_has (activeSessions s) sid"
  then show "load_fails lib (snd (stop_session Removed s sid)) sid"
    by (rule stop_removed_load_fails)
next
  assume a: "n < length (timers s) \<and> snd (timers s ! n) = sid"
  then show "fire_timer lib conn (snd (stop_session out s sid)) n =
        safeStartWhatsAppSession lib conn
          ((snd (stop_session out s sid))\<lparr>timers := take n (timers s) @ drop (Suc n) (timers s)\<rparr>) sid"
    by (simp add: fire_timer_def stop_timers)
next
  assume a: "n < length (timers s) \<and> snd (timers s ! n) = sid"
    and l: "load_fails lib (snd (stop_session out s sid)) sid"
  from try_start_load_fails [OF l, of conn] obtain e where
    e: "try_start lib conn (snd (stop_session out s sid)) sid = Inl e" by blast
  from a have a1: "n < length (timers s)" and a2: "snd (timers s ! n) = sid" by simp_all
  from fire_after_stop_failed [OF a1 a2 e]
  show "\<not> Map_has (activeSessions (fire_timer lib conn (snd (stop_session out s sid)) n)) sid"
    and "timers (fire_timer lib conn (snd (stop_session out s sid)) n)
           = take n (timers s) @ drop (Suc n) (timers s) @ [(60000, sid)]"
    by simp_all
next
  assume a: "n < length (timers s) \<and> snd (timers s ! n) = sid"
  from try_start_transport_fails [of lib err "snd (stop_session out s sid)" sid] obtain e where
    e: "try_start lib (Inl err) (snd (stop_session out s sid)) sid = Inl e" by blast
  from a have a1: "n < length (timers s)" and a2: "snd (timers s ! n) = sid" by simp_all
  from fire_after_stop_failed [OF a1 a2 e]
  show "\<not> Map_has (activeSessions (fire_timer lib (Inl err) (snd (stop_session out s sid)) n)) sid"
    and "timers (fire_timer lib (Inl err) (snd (stop_session out s sid)) n)
           = take n (timers s) @ drop (Suc n) (timers s) @ [(60000, sid)]"
    by simp_all
next
  assume a: "n < length (timers s) \<and> snd (timers s ! n) = sid"
    and l: "readSessionFile (snd (stop_session out s sid)) sid ''data.json'' = Inr text \<and>
            JSON_parse lib text = Some d"
  let ?p = "snd (stop_session out s sid)"
  let ?s1 = "?p\<lparr>timers := take n (timers s) @ drop (Suc n) (timers s)\<rparr>"
  have f: "fire_timer lib (Inr sock) ?p n = safeStartWhatsAppSession lib (Inr sock) ?s1 sid"
    using a by (simp add: fire_timer_def stop_timers)
  have "readSessionFile ?s1 sid ''data.json'' = Inr text"
    using l by (simp add: readSessionFile_def)
  from start_loaded [OF this, of lib d sock] l
  show "Map_get (activeSessions (fire_timer lib (Inr sock) ?p n)) sid = Some sock"
    by (simp add: f safeStart_is_start Map_get_set)
qed

theorem C5_stop_keeps_pending_timers_witness:
  "(0::nat) < length (timers restarting_state) \<and> snd (timers restarting_state ! 0) = ''s1'' \<and>
   Map_has (activeSessions restarting_state) ''s1'' \<and>
   load_fails example_lib (snd (stop_session Removed restarting_state ''s1'')) ''s1'' \<and>
   timers (snd (stop_session Removed restarting_state ''s1'')) = [(60000, ''s1'')] \<and>
   \<not> Map_has (activeSessions (fire_timer example_lib (Inr 2)
        (snd (stop_session Removed restarting_state ''s1'')) 0)) ''s1'' \<and>
   timers (fire_timer example_lib (Inr 2)
        (snd (stop_session Removed restarting_state ''s1'')) 0) = [(60000, ''s1'')] \<and>
   readSessionFile (snd (stop_session (Failed [''creds.json'']) restarting_state ''s1'')) ''s1''
        ''data.json'' = Inr ''D'' \<and>
   JSON_parse example_lib ''D'' = Some example_data \<and>
   Map_get (activeSessions (fire_timer example_lib (Inr 2)
        (snd (stop_session (Failed [''creds.json'']) restarting_state ''s1'')) 0)) ''s1'' = Some 2"
proof -
  have r: "restarting_state = running_state\<lparr>console := [ConnectionClosed ''s1''], timers := [(60000, ''s1'')]\<rparr>"
    by (simp add: restarting_state_def close_event closure_other running_state_def)
  have t: "timers restarting_state = [(60000, ''s1'')]" by (simp add: r)
  have h: "(0::nat) < length (timers restarting_state) \<and> snd (timers restarting_state ! 0) = ''s1''"
    by (simp add: t)
  have m: "Map_has (activeSessions restarting_state) ''s1''"
    by (simp add: r running_state_def Map_has_def)
  have l: "readSessionFile (snd (stop_session (Failed [''creds.json'']) restarting_state ''s1'')) ''s1''
             ''data.json'' = Inr ''D'' \<and>
           JSON_parse example_lib ''D'' = Some example_data"
    by (simp add: r running_state_def stop_session_def Map_has_def Map_get_def Let_def
          rmdir_partial_def readSessionFile_def example_lib_def)
  note removed = C5_stop_keeps_pending_timers [of Removed restarting_state "''s1''" example_lib 0 "Inr 2"]
  note failed = C5_stop_keeps_pending_timers [of "Failed [''creds.json'']" restarting_state "''s1''"
        example_lib 0 "Inr 2" TransportError "''D''" example_data 2]
  from removed m have lf: "load_fails example_lib (snd (stop_session Removed restarting_state ''s1'')) ''s1''"
    by blast
  from removed have a: "timers (snd (stop_session Removed restarting_state ''s1'')) = timers restarting_state"
    by blast
  from removed h lf have b: "\<not> Map_has (activeSessions (fire_timer example_lib (Inr 2)
        (snd (stop_session Removed restarting_state ''s1'')) 0)) ''s1''"
    by blast
  from removed h lf have "timers (fire_timer example_lib (Inr 2)
        (snd (stop_session Removed restarting_state ''s1'')) 0)
      = take 0 (timers restarting_state) @ drop (Suc 0) (timers restarting_state) @ [(60000, ''s1'')]"
    by blast
  then have c: "timers (fire_timer example_lib (Inr 2)
        (snd (stop_session Removed restarting_state ''s1'')) 0) = [(60000, ''s1'')]"
    by (simp add: t)
  from failed h l have d: "Map_get (activeSessions (fire_timer example_lib (Inr 2)
        (snd (stop_session (Failed [''creds.json'']) restarting_state ''s1'')) 0)) ''s1'' = Some 2"
    by blast
  from h m lf a [unfolded t] b c l d show ?thesis by blast
qed

section \<open>Duplicate credentials\<close>

lemma scan_finds:
  "readSessionFile s sid ''creds.json'' = Inr h \<Longrightarrow>
   \<forall>p \<in> set before. \<exists>x. readSessionFile s (fst p) ''creds.json'' = Inr x \<Longrightarrow>
   scanSessions s h (before @ (sid, sock) # rest) = Inr True"
proof (induction before)
  case Nil
  then show ?case by simp
next
  case (Cons p before)
  obtain k v where p: "p = (k, v)" by (cases p)
  from Cons.prems(2) p obtain x where x: "readSessionFile s k ''creds.json'' = Inr x" by auto
  have "\<forall>p \<in> set before. \<exists>x. readSessionFile s (fst p) ''creds.json'' = Inr x"
    using Cons.prems(2) by simp
  from Cons.IH [OF Cons.prems(1) this] show ?case by (simp add: p x)
qed

text \<open>
  Claim C10, as stated: an upload equal to the stored credentials of any active session
  is answered with 400 and the upload is deleted. Against it: \<open>s1\<close> is still registered
  after its 401 closure removed its folder, \<open>s2\<close> holds the uploaded credentials; the
  scan fails on the missing file of \<open>s1\<close> before it reaches \<open>s2\<close>, the request is
  answered with 500 and the upload stays.
\<close>

theorem C10_counterexample:
  "Map_has (activeSessions stale_state) ''s2'' \<and>
   readSessionFile stale_state ''s2'' ''creds.json'' = Inr ''C2'' \<and>
   uploads stale_state ''uploads/c'' = Some ''C2'' \<and>
   file_creds example_request = Some ''uploads/c'' \<and>
   fst (send_message example_lib 1000 True stale_state example_request)
     = Response 500 ''Failed to process the request.'' \<and>
   uploads (snd (send_message example_lib 1000 True stale_state example_request)) ''uploads/c''
     = Some ''C2''"
  by (simp add: stale_state_def two_sessions_state_def close_event closure_auth
        Map_has_def readSessionFile_def example_request_def send_message_def
        isDuplicateCreds_def processing_error_def)

text \<open>
  Claim C10, amended: for a request carrying both files, if the uploaded credentials
  equal the stored \<^verbatim>\<open>creds.json\<close> of an active session and the \<^verbatim>\<open>creds.json\<close> of every
  session registered before that one can be read, the request is answered with 400 and
  the uploaded credentials file is deleted; no session id is allocated, no folder is
  created, no record is written and no start is queued.
\<close>

theorem C10_duplicate_creds_rejected:
  assumes "file_messageFile req = Some m" and "file_creds req = Some c"
    and "uploads s c = Some h"
    and "activeSessions s = before @ (sid, sock) # rest"
    and "readSessionFile s sid ''creds.json'' = Inr h"
    and "\<forall>p \<in> set before. \<exists>x. readSessionFile s (fst p) ''creds.json'' = Inr x"
  shows "send_message lib now mkdir_ok s req =
           (Response 400 ''This creds.json is already in use. Please provide a unique credentials file.'',
            s\<lparr>uploads := (uploads s)(c := None)\<rparr>)
         \<and> status (fst (send_message lib now mkdir_ok s req)) = 400
         \<and> uploads (snd (send_message lib now mkdir_ok s req)) c = None
         \<and> dataDir (snd (send_message lib now mkdir_ok s req)) = dataDir s
         \<and> immediates (snd (send_message lib now mkdir_ok s req)) = immediates s
         \<and> activeSessions (snd (send_message lib now mkdir_ok s req)) = activeSessions s"
proof -
  have "isDuplicateCreds s c = Inr True"
    using assms(3,4) scan_finds [OF assms(5,6)] by (simp add: isDuplicateCreds_def)
  then have "send_message lib now mkdir_ok s req =
           (Response 400 ''This creds.json is already in use. Please provide a unique credentials file.'',
            s\<lparr>uploads := (uploads s)(c := None)\<rparr>)"
    using assms(1,2) by (simp add: send_message_def)
  then show ?thesis by simp
qed

theorem C10_duplicate_creds_rejected_witness:
  "file_messageFile example_request = Some ''uploads/m'' \<and>
   file_creds example_request = Some ''uploads/c'' \<and>
   uploads two_sessions_state ''uploads/c'' = Some ''C2'' \<and>
   activeSessions two_sessions_state = [(''s1'', 1)] @ (''s2'', 2) # [] \<and>
   readSessionFile two_sessions_state ''s2'' ''creds.json'' = Inr ''C2'' \<and>
   readSessionFile two_sessions_state ''s1'' ''creds.json'' = Inr ''C1'' \<and>
   status (fst (send_message example_lib 1000 True two_sessions_state example_request)) = 400 \<and>
   uploads (snd (send_message example_lib 1000 True two_sessions_state example_request)) ''uploads/c'' = None"
proof -
  have 1: "file_messageFile example_request = Some ''uploads/m''" by (simp add: example_request_def)
  have 2: "file_creds example_request = Some ''uploads/c''" by (simp add: example_request_def)
  have 3: "uploads two_sessions_state ''uploads/c'' = Some ''C2''" by (simp add: two_sessions_state_def)
  have 4: "activeSessions two_sessions_state = [(''s1'', 1)] @ (''s2'', 2) # []"
    by (simp add: two_sessions_state_def)
  have 5: "readSessionFile two_sessions_state ''s2'' ''creds.json'' = Inr ''C2''"
    by (simp add: two_sessions_state_def readSessionFile_def)
  have 7: "readSessionFile two_sessions_state ''s1'' ''creds.json'' = Inr ''C1''"
    by (simp add: two_sessions_state_def readSessionFile_def)
  have 6: "\<forall>p \<in> set [(''s1'', 1::nat)]. \<exists>x. readSessionFile two_sessions_state (fst p) ''creds.json'' = Inr x"
    using 7 by simp
  from C10_duplicate_creds_rejected [OF 1 2 3 4 5 6, of example_lib 1000 True]
  show ?thesis using 1 2 3 4 5 7 by simp
qed

end
